theory Spec2Isabelle
  imports Complex_Main "HOL-Library.Word"
begin

unbundle bit_operations_syntax

section \<open>Values of the JavaScript source\<close>

text \<open>
  The source (\<^verbatim>\<open>src/utils/index.js\<close>) computes with two kinds of numbers.
  \<^item> Amounts are objects of the \<^verbatim>\<open>big-integer\<close> library: signed integers of
    arbitrary precision, modelled as \<^typ>\<open>int\<close>.
  \<^item> Day counts and day indices are plain JavaScript numbers. The source only adds,
    subtracts and compares them, halves them (\<^verbatim>\<open>stakedDays / 2\<close>) and takes
    \<^verbatim>\<open>stakedDays % 2\<close>. On integers and half-integers of magnitude below \<open>2^52\<close>
    IEEE doubles do all of that exactly, so a JavaScript number is modelled as a
    \<^typ>\<open>rat\<close>; above that range sums of doubles are rounded, which the model
    does not cover. Comparisons of numbers are exact everywhere. The operator \<^verbatim>\<open>/\<close> is the
    division of numbers, not integer division: \<^verbatim>\<open>179 / 2\<close> is \<^verbatim>\<open>89.5\<close>.
  An exception thrown by the source is a value \<open>Inl e\<close> of the result.
\<close>

datatype error =
    TypeError       \<comment> \<open>a property of \<^verbatim>\<open>undefined\<close> is read, or \<^verbatim>\<open>undefined\<close> is called\<close>
  | NotAnInteger    \<comment> \<open>big-integer: \<^verbatim>\<open>x is not an integer.\<close>\<close>

text \<open>
  An argument of a method of a big integer is either a big-integer object or a
  JavaScript number; the library's \<^verbatim>\<open>parseValue\<close> accepts a number only when it is
  an integer.
\<close>

datatype bigarg = BigV int | NumV rat

fun parseValue :: "bigarg \<Rightarrow> error + int" where
  "parseValue (BigV i) = Inr i"
| "parseValue (NumV q) = (if of_int \<lfloor>q\<rfloor> = q then Inr \<lfloor>q\<rfloor> else Inl NotAnInteger)"

text \<open>\<^verbatim>\<open>a.add(v)\<close>, the library's sum. (\<^verbatim>\<open>a.gt(b)\<close> and \<^verbatim>\<open>a.eq(b)\<close>, also methods of
  the library, are only applied to two big integers and are written \<open>a > b\<close> and
  \<open>a = b\<close>; so is the sum of two big integers, \<open>a + b\<close>.)\<close>

definition bigAdd :: "int \<Rightarrow> bigarg \<Rightarrow> error + int" where
  "bigAdd a v = (case parseValue v of Inl e \<Rightarrow> Inl e | Inr b \<Rightarrow> Inr (a + b))"

text \<open>
  \<^verbatim>\<open>a.mul(v)\<close>, \<^verbatim>\<open>a.div(v)\<close> and \<^verbatim>\<open>a.sub(v)\<close>. An object of the \<^verbatim>\<open>big-integer\<close>
  library has no method of these names: its product, quotient and difference are
  \<^verbatim>\<open>multiply\<close> or \<^verbatim>\<open>times\<close>, \<^verbatim>\<open>divide\<close> or \<^verbatim>\<open>over\<close>, and \<^verbatim>\<open>subtract\<close> or
  \<^verbatim>\<open>minus\<close>. So \<^verbatim>\<open>a.mul\<close> is \<^verbatim>\<open>undefined\<close>, and the call throws a
  \<^verbatim>\<open>TypeError\<close> whatever the receiver and the argument are. Nothing is multiplied,
  divided or subtracted, and no division by zero is ever detected.
\<close>

definition bigMul :: "int \<Rightarrow> bigarg \<Rightarrow> error + int" where
  "bigMul a v = Inl TypeError"

definition bigDiv :: "int \<Rightarrow> bigarg \<Rightarrow> error + int" where
  "bigDiv a v = Inl TypeError"

definition bigSub :: "int \<Rightarrow> bigarg \<Rightarrow> error + int" where
  "bigSub a v = Inl TypeError"

section \<open>Daily data\<close>

record DailyRecord =
  dayStakeSharesTotal :: int
  dayPayoutTotal :: int

text \<open>\<^verbatim>\<open>processDailyRangeData\<close> (lines 9-17). The mask is the hexadecimal literal
  \<^verbatim>\<open>FFFFFFFFFFFFFFFFFFFFFFFFFFFFFFFF\<close>.\<close>

definition processDailyRangeData :: "int list \<Rightarrow> DailyRecord list" where
  "processDailyRangeData data =
     map (\<lambda>sharesHearts.
            let asBig = sharesHearts in
            \<lparr> dayStakeSharesTotal = drop_bit 128 asBig,
              dayPayoutTotal = asBig AND 340282366920938463463374607431768211455 \<rparr>)
         data"

text \<open>The decoder as the specification words it (\<open>raw >> 128\<close> and
  \<open>raw & (2^128 - 1)\<close>), to be compared with the source's.\<close>

definition spec_decodeDay :: "int \<Rightarrow> DailyRecord" where
  "spec_decodeDay raw =
     \<lparr> dayStakeSharesTotal = drop_bit 128 raw, dayPayoutTotal = raw AND (2 ^ 128 - 1) \<rparr>"

section \<open>Reward accumulation\<close>

text \<open>
  The first argument of \<^verbatim>\<open>calcPayoutRewards\<close> is the array of daily records at two
  call sites and the stake's share weight at the third (line 124); the last argument is
  absent there, so the parameter \<^verbatim>\<open>endDay\<close> is \<^verbatim>\<open>undefined\<close>, here \<open>None\<close>.
\<close>

datatype payoutData = Days "DailyRecord list" | Scalar bigarg

text \<open>\<^verbatim>\<open>dailyPayoutData[day]\<close> followed by a property read: an index that is not
  one of \<open>0, ..., length - 1\<close> yields \<^verbatim>\<open>undefined\<close>, and the read throws.\<close>

fun dayAt :: "payoutData \<Rightarrow> rat \<Rightarrow> error + DailyRecord" where
  "dayAt (Days ds) day =
     (if of_int \<lfloor>day\<rfloor> = day \<and> 0 \<le> day \<and> \<lfloor>day\<rfloor> < int (length ds)
      then Inr (ds ! nat \<lfloor>day\<rfloor>) else Inl TypeError)"
| "dayAt (Scalar v) day = Inl TypeError"

text \<open>\<^verbatim>\<open>day < endDay\<close>: a comparison with \<^verbatim>\<open>undefined\<close> is false.\<close>

fun dayBefore :: "rat \<Rightarrow> rat option \<Rightarrow> bool" where
  "dayBefore day None = False"
| "dayBefore day (Some endDay) = (day < endDay)"

text \<open>The summand of \<^verbatim>\<open>calcPayoutRewards\<close> (lines 22-23): the day's record is
  read, then \<^verbatim>\<open>mul\<close> is called on its payout total and \<^verbatim>\<open>div\<close> on the result.\<close>

definition dayReward :: "payoutData \<Rightarrow> bigarg \<Rightarrow> rat \<Rightarrow> error + int" where
  "dayReward dailyPayoutData stakeShares day =
     (case dayAt dailyPayoutData day of
        Inl e \<Rightarrow> Inl e
      | Inr r \<Rightarrow>
         (case bigMul (dayPayoutTotal r) stakeShares of
            Inl e \<Rightarrow> Inl e
          | Inr m \<Rightarrow> bigDiv m (BigV (dayStakeSharesTotal r))))"

text \<open>The loop of \<^verbatim>\<open>calcPayoutRewards\<close> (lines 21-24), from the current day and
  the payout accumulated so far.\<close>

function payoutLoop ::
  "payoutData \<Rightarrow> bigarg \<Rightarrow> rat \<Rightarrow> rat option \<Rightarrow> int \<Rightarrow> error + int" where
  "payoutLoop dailyPayoutData stakeShares day endDay payout =
     (if dayBefore day endDay then
        (case dayReward dailyPayoutData stakeShares day of
           Inl e \<Rightarrow> Inl e
         | Inr q \<Rightarrow> payoutLoop dailyPayoutData stakeShares (day + 1) endDay (payout + q))
      else Inr payout)"
  by pat_completeness auto
termination
proof (relation "measure (\<lambda>(d, s, day, endDay, p).
          case endDay of None \<Rightarrow> 0 | Some e \<Rightarrow> nat \<lceil>e - day\<rceil>)")
  show "wf (measure (\<lambda>(d, s, day, endDay, p).
          case endDay of None \<Rightarrow> 0 | Some e \<Rightarrow> nat \<lceil>e - day\<rceil>))"
    by simp
next
  fix dailyPayoutData :: payoutData and stakeShares :: bigarg and day :: rat
    and endDay :: "rat option" and payout :: int and q :: int
  assume "dayBefore day endDay"
  then obtain e where e: "endDay = Some e" "day < e"
    by (cases endDay) auto
  have "e - (day + 1) = (e - day) - 1"
    by simp
  then have "\<lceil>e - (day + 1)\<rceil> = \<lceil>e - day\<rceil> - 1"
    by (simp only: ceiling_diff_one)
  moreover have "0 < \<lceil>e - day\<rceil>"
    using e by simp
  ultimately show "((dailyPayoutData, stakeShares, day + 1, endDay, payout + q),
          (dailyPayoutData, stakeShares, day, endDay, payout)) \<in>
        measure (\<lambda>(d, s, day, endDay, p).
          case endDay of None \<Rightarrow> 0 | Some e \<Rightarrow> nat \<lceil>e - day\<rceil>)"
    using e by simp
qed

declare payoutLoop.simps [simp del]

definition calcPayoutRewards ::
  "payoutData \<Rightarrow> bigarg \<Rightarrow> rat \<Rightarrow> rat option \<Rightarrow> error + int" where
  "calcPayoutRewards dailyPayoutData stakeShares beginDay endDay =
     payoutLoop dailyPayoutData stakeShares beginDay endDay 0"

text \<open>\<^verbatim>\<open>estimatePayoutRewardsDay\<close> (lines 28-34).\<close>

definition estimatePayoutRewardsDay :: "DailyRecord list \<Rightarrow> int \<Rightarrow> rat \<Rightarrow> error + int" where
  "estimatePayoutRewardsDay dailyData stakeSharesParam sampleDay =
     (case dayAt (Days dailyData) sampleDay of
        Inl e \<Rightarrow> Inl e
      | Inr r \<Rightarrow>
         (case bigMul (dayPayoutTotal r) (BigV stakeSharesParam) of
            Inl e \<Rightarrow> Inl e
          | Inr m \<Rightarrow>
             (case bigAdd (dayStakeSharesTotal r) (BigV stakeSharesParam) of
                Inl e \<Rightarrow> Inl e
              | Inr d \<Rightarrow> bigDiv m (BigV d))))"

section \<open>Penalties\<close>

definition LATE_PENALTY_GRACE_DAYS :: rat where
  "LATE_PENALTY_GRACE_DAYS = 14"

definition LATE_PENALTY_SCALE_DAYS :: rat where
  "LATE_PENALTY_SCALE_DAYS = 700"

definition EARLY_PENALTY_MIN_DAYS :: rat where
  "EARLY_PENALTY_MIN_DAYS = 90"

text \<open>\<^verbatim>\<open>calcLatePenalty\<close> (lines 36-49).\<close>

definition calcLatePenalty :: "rat \<Rightarrow> rat \<Rightarrow> int \<Rightarrow> error + int" where
  "calcLatePenalty stakedDays unpooledDays rawStakeReturn =
     (let effectiveStakedDays = stakedDays + LATE_PENALTY_GRACE_DAYS in
      if unpooledDays \<le> effectiveStakedDays then Inr 0
      else
        (case bigMul rawStakeReturn (NumV (unpooledDays - effectiveStakedDays)) of
           Inl e \<Rightarrow> Inl e
         | Inr m \<Rightarrow> bigDiv m (NumV LATE_PENALTY_SCALE_DAYS)))"

text \<open>The remainder \<^verbatim>\<open>x % y\<close> of JavaScript numbers (for \<open>y \<noteq> 0\<close>): it takes the sign
  of \<open>x\<close>, the quotient being truncated towards zero.\<close>

definition jsRem :: "rat \<Rightarrow> rat \<Rightarrow> rat" where
  "jsRem x y = x - y * of_int (if 0 \<le> x / y then \<lfloor>x / y\<rfloor> else \<lceil>x / y\<rceil>)"

text \<open>The penalty window of \<^verbatim>\<open>calcPayoutAndEarlyPenalty\<close> (lines 63-67):
  \<^verbatim>\<open>stakedDays / 2 + (stakedDays % 2)\<close>, raised to the minimum.\<close>

definition penaltyDaysOf :: "rat \<Rightarrow> rat" where
  "penaltyDaysOf stakedDays =
     (let penaltyDays = stakedDays / 2 + jsRem stakedDays 2 in
      if penaltyDays < EARLY_PENALTY_MIN_DAYS then EARLY_PENALTY_MIN_DAYS else penaltyDays)"

text \<open>\<^verbatim>\<open>calcPayoutAndEarlyPenalty\<close> (lines 51-106); the result is the pair
  \<^verbatim>\<open>[payout, penalty]\<close>.\<close>

definition calcPayoutAndEarlyPenalty ::
  "DailyRecord list \<Rightarrow> rat \<Rightarrow> rat \<Rightarrow> rat \<Rightarrow> int \<Rightarrow> error + (int \<times> int)" where
  "calcPayoutAndEarlyPenalty dailyPayoutData pooledDay stakedDays servedDays stakeShares =
     (let servedEndDay = pooledDay + servedDays;
          penaltyDays = penaltyDaysOf stakedDays
      in
      if servedDays = 0 then
        (case estimatePayoutRewardsDay dailyPayoutData stakeShares (pooledDay - 1) of
           Inl e \<Rightarrow> Inl e
         | Inr expected \<Rightarrow>
            (case bigMul expected (NumV penaltyDays) of
               Inl e \<Rightarrow> Inl e
             | Inr penalty \<Rightarrow> Inr (0, penalty)))
      else if penaltyDays < servedDays then
        (let penaltyEndDay = pooledDay + penaltyDays in
         case calcPayoutRewards (Days dailyPayoutData) (BigV stakeShares) pooledDay
                (Some penaltyEndDay) of
           Inl e \<Rightarrow> Inl e
         | Inr penalty \<Rightarrow>
            (case calcPayoutRewards (Days dailyPayoutData) (BigV stakeShares) penaltyEndDay
                    (Some servedEndDay) of
               Inl e \<Rightarrow> Inl e
             | Inr delta \<Rightarrow> Inr (penalty + delta, penalty)))
      else
        (case calcPayoutRewards (Days dailyPayoutData) (BigV stakeShares) pooledDay
                (Some servedEndDay) of
           Inl e \<Rightarrow> Inl e
         | Inr payout \<Rightarrow>
            if penaltyDays = servedDays then Inr (payout, payout)
            else
              (case bigMul payout (NumV penaltyDays) of
                 Inl e \<Rightarrow> Inl e
               | Inr m \<Rightarrow>
                  (case bigDiv m (NumV servedDays) of
                     Inl e \<Rightarrow> Inl e
                   | Inr penalty \<Rightarrow> Inr (payout, penalty)))))"

section \<open>Stake return\<close>

record StakeRecord =
  pooledDay :: rat
  stakedDays :: rat
  unpooledDay :: rat
  stakeShares :: int
  stakedHearts :: int

text \<open>The two branches of \<^verbatim>\<open>calcStakeReturn\<close> (lines 114-132), which leave
  \<^verbatim>\<open>stakeReturn\<close> and \<^verbatim>\<open>penalty\<close>. The call of line 124 has three arguments:
  the share weight stands where the daily data is expected, the pooled day where the
  shares are, the end of the range where its beginning is, and no end day is given.\<close>

definition stakeReturnAndPenalty ::
  "DailyRecord list \<Rightarrow> StakeRecord \<Rightarrow> rat \<Rightarrow> error + (int \<times> int)" where
  "stakeReturnAndPenalty dailyData st servedDays =
     (if servedDays < stakedDays st then
        (case calcPayoutAndEarlyPenalty dailyData (pooledDay st) (stakedDays st) servedDays
                (stakeShares st) of
           Inl e \<Rightarrow> Inl e
         | Inr (payout, penalty) \<Rightarrow> Inr (stakedHearts st + payout, penalty))
      else
        (case calcPayoutRewards (Scalar (BigV (stakeShares st))) (NumV (pooledDay st))
                (pooledDay st + servedDays) None of
           Inl e \<Rightarrow> Inl e
         | Inr payout \<Rightarrow>
            (let stakeReturn = stakedHearts st + payout in
             case calcLatePenalty (stakedDays st) (unpooledDay st - pooledDay st)
                    stakeReturn of
               Inl e \<Rightarrow> Inl e
             | Inr penalty \<Rightarrow> Inr (stakeReturn, penalty))))"

text \<open>The capping that ends \<^verbatim>\<open>calcStakeReturn\<close> (lines 133-144), after either
  branch.\<close>

definition capPenalty :: "int \<Rightarrow> int \<Rightarrow> error + int" where
  "capPenalty stakeReturn penalty =
     (if penalty \<noteq> 0 then
        (if penalty > stakeReturn then Inr 0 else bigSub stakeReturn (BigV penalty))
      else Inr stakeReturn)"

definition calcStakeReturn :: "DailyRecord list \<Rightarrow> StakeRecord \<Rightarrow> rat \<Rightarrow> error + int" where
  "calcStakeReturn dailyData st servedDays =
     (case stakeReturnAndPenalty dailyData st servedDays of
        Inl e \<Rightarrow> Inl e
      | Inr (stakeReturn, penalty) \<Rightarrow> capPenalty stakeReturn penalty)"

section \<open>Interface filtering\<close>







section \<open>The decoder\<close>

lemma and_low_mask_int: "r AND (2 ^ n - 1) = r mod 2 ^ n" for r :: int
  by (simp only: take_bit_eq_mod flip: mask_eq_exp_minus_1 take_bit_eq_mask)

lemma repack_int: "push_bit n (drop_bit n r) OR (r AND (2 ^ n - 1)) = r" for r :: int
  by (rule bit_eqI) (auto simp add: bit_or_iff bit_push_bit_iff bit_drop_bit_eq bit_and_iff
      bit_mask_iff simp flip: mask_eq_exp_minus_1)

lemma processDailyRangeData_map: "processDailyRangeData raws = map spec_decodeDay raws"
  by (simp add: processDailyRangeData_def spec_decodeDay_def)

lemma high_half_bounds:
  fixes r :: int
  assumes "0 \<le> r" and "r < 2 ^ 256"
  shows "0 \<le> r div 2 ^ 128" and "r div 2 ^ 128 < 2 ^ 128"
proof -
  show "0 \<le> r div 2 ^ 128"
    using assms(1) by (simp add: pos_imp_zdiv_nonneg_iff)
  have "r < 2 ^ 128 * (2::int) ^ 128"
    using assms(2) by (simp flip: power_add)
  then show "r div 2 ^ 128 < 2 ^ 128"
    by (simp add: div_less_iff_less_mult)
qed

text \<open>
  Claim C6. For every raw value \<open>r\<close> with \<open>0 \<le> r < 2^256\<close> the decoder yields the high
  half \<open>r >> 128\<close> as the share total and the low half \<open>r & (2^128 - 1)\<close> as the payout
  total, both below \<open>2^128\<close>; shifting the share total back and or-ing the payout total
  gives \<open>r\<close> again; and \<^verbatim>\<open>processDailyRangeData\<close> is the element-wise map of the
  decoder, in order.
\<close>

theorem decode_round_trip:
  assumes "0 \<le> r" and "r < 2 ^ 256"
  shows "processDailyRangeData raws = map spec_decodeDay raws
       \<and> dayStakeSharesTotal (spec_decodeDay r) = r div 2 ^ 128
       \<and> dayPayoutTotal (spec_decodeDay r) = r mod 2 ^ 128
       \<and> push_bit 128 (dayStakeSharesTotal (spec_decodeDay r))
            OR dayPayoutTotal (spec_decodeDay r) = r
       \<and> 0 \<le> dayStakeSharesTotal (spec_decodeDay r)
       \<and> dayStakeSharesTotal (spec_decodeDay r) < 2 ^ 128
       \<and> 0 \<le> dayPayoutTotal (spec_decodeDay r)
       \<and> dayPayoutTotal (spec_decodeDay r) < 2 ^ 128"
proof -
  have shares: "dayStakeSharesTotal (spec_decodeDay r) = r div 2 ^ 128"
    by (simp only: spec_decodeDay_def DailyRecord.simps drop_bit_eq_div)
  have payout: "dayPayoutTotal (spec_decodeDay r) = r mod 2 ^ 128"
    by (simp only: spec_decodeDay_def DailyRecord.simps and_low_mask_int)
  have pack: "push_bit 128 (dayStakeSharesTotal (spec_decodeDay r))
            OR dayPayoutTotal (spec_decodeDay r) = r"
    by (simp only: spec_decodeDay_def DailyRecord.simps repack_int)
  have "0 \<le> r mod 2 ^ 128" and "r mod 2 ^ 128 < 2 ^ 128"
    by simp_all
  with shares payout pack high_half_bounds [OF assms] processDailyRangeData_map [of raws]
  show ?thesis
    by (simp only: simp_thms)
qed

theorem decode_round_trip_witness:
  "processDailyRangeData [5 * 2 ^ 128 + 7, 0]
     = [\<lparr>dayStakeSharesTotal = 5, dayPayoutTotal = 7\<rparr>,
        \<lparr>dayStakeSharesTotal = 0, dayPayoutTotal = 0\<rparr>]
   \<and> push_bit 128 (dayStakeSharesTotal (spec_decodeDay (5 * 2 ^ 128 + 7)))
        OR dayPayoutTotal (spec_decodeDay (5 * 2 ^ 128 + 7)) = 5 * 2 ^ 128 + 7"
proof -
  have "(0::int) \<le> 5 * 2 ^ 128 + 7" and "(5::int) * 2 ^ 128 + 7 < 2 ^ 256"
    by simp_all
  from decode_round_trip [OF this, of "[5 * 2 ^ 128 + 7, 0]"]
  show ?thesis
    by (simp add: spec_decodeDay_def drop_bit_eq_div and_low_mask_int)
qed

section \<open>What the missing methods leave of the accumulation\<close>

lemma dayReward_throws: "dayReward d s day = Inl TypeError"
  by (cases d) (simp_all add: dayReward_def bigMul_def)

lemma payoutLoop_stop: "\<not> dayBefore day endDay \<Longrightarrow> payoutLoop d s day endDay payout = Inr payout"
  by (subst payoutLoop.simps) simp

lemma payoutLoop_throws: "dayBefore day endDay \<Longrightarrow> payoutLoop d s day endDay payout = Inl TypeError"
  by (subst payoutLoop.simps) (simp add: dayReward_throws)

text \<open>An empty range, a reversed one included, is the only one that yields a value.\<close>

lemma calcPayoutRewards_empty: "e \<le> b \<Longrightarrow> calcPayoutRewards d s b (Some e) = Inr 0"
  by (simp add: calcPayoutRewards_def payoutLoop_stop)

lemma calcPayoutRewards_nonempty: "b < e \<Longrightarrow> calcPayoutRewards d s b (Some e) = Inl TypeError"
  by (simp add: calcPayoutRewards_def payoutLoop_throws)

lemma calcPayoutRewards_no_endDay: "calcPayoutRewards d s b None = Inr 0"
  by (simp add: calcPayoutRewards_def payoutLoop_stop)

lemma estimatePayoutRewardsDay_throws: "estimatePayoutRewardsDay ds s day = Inl TypeError"
  by (simp add: estimatePayoutRewardsDay_def bigMul_def split: sum.splits)

text \<open>
  Claim C4, as the code has it. With \<open>beginDay \<ge> endDay\<close>, so also with
  \<open>beginDay > endDay\<close>, no day is referenced and the call returns \<open>0\<close> without an error.
  With \<open>beginDay < endDay\<close>, whenever some day of \<open>[beginDay, endDay)\<close> lies outside the
  data or has a share total of zero, the call throws and returns no value; when
  \<open>beginDay\<close> itself lies outside the data, the error is a \<^verbatim>\<open>TypeError\<close>.
\<close>

theorem calcPayoutRewards_errors:
  "(e \<le> b \<longrightarrow> calcPayoutRewards (Days ds) s (of_int b) (Some (of_int e)) = Inr 0)
   \<and> (b \<le> d \<and> d < e
        \<and> (d < 0 \<or> int (length ds) \<le> d \<or> dayStakeSharesTotal (ds ! nat d) = 0)
      \<longrightarrow> (\<exists>err. calcPayoutRewards (Days ds) s (of_int b) (Some (of_int e)) = Inl err))
   \<and> (b < e \<and> (b < 0 \<or> int (length ds) \<le> b)
      \<longrightarrow> calcPayoutRewards (Days ds) s (of_int b) (Some (of_int e)) = Inl TypeError)"
proof (intro conjI impI)
  assume "e \<le> b"
  then have "rat_of_int e \<le> of_int b"
    by (simp only: of_int_le_iff)
  then show "calcPayoutRewards (Days ds) s (of_int b) (Some (of_int e)) = Inr 0"
    by (rule calcPayoutRewards_empty)
next
  assume "b \<le> d \<and> d < e
    \<and> (d < 0 \<or> int (length ds) \<le> d \<or> dayStakeSharesTotal (ds ! nat d) = 0)"
  then have "b < e"
    by simp
  then have "rat_of_int b < of_int e"
    by (simp only: of_int_less_iff)
  then have "calcPayoutRewards (Days ds) s (of_int b) (Some (of_int e)) = Inl TypeError"
    by (rule calcPayoutRewards_nonempty)
  then show "\<exists>err. calcPayoutRewards (Days ds) s (of_int b) (Some (of_int e)) = Inl err"
    by (rule exI)
next
  assume "b < e \<and> (b < 0 \<or> int (length ds) \<le> b)"
  then have "rat_of_int b < of_int e"
    by (simp only: of_int_less_iff)
  then show "calcPayoutRewards (Days ds) s (of_int b) (Some (of_int e)) = Inl TypeError"
    by (rule calcPayoutRewards_nonempty)
qed

theorem calcPayoutRewards_errors_witness:
  "calcPayoutRewards (Days [\<lparr>dayStakeSharesTotal = 4, dayPayoutTotal = 9\<rparr>]) (BigV 6) 1 (Some 0)
     = Inr 0
   \<and> (\<exists>err. calcPayoutRewards (Days [\<lparr>dayStakeSharesTotal = 4, dayPayoutTotal = 9\<rparr>,
                                     \<lparr>dayStakeSharesTotal = 0, dayPayoutTotal = 9\<rparr>])
               (BigV 6) 0 (Some 2) = Inl err)
   \<and> calcPayoutRewards (Days [\<lparr>dayStakeSharesTotal = 4, dayPayoutTotal = 9\<rparr>]) (BigV 6) 1 (Some 2)
     = Inl TypeError"
proof -
  let ?one = "[\<lparr>dayStakeSharesTotal = 4, dayPayoutTotal = 9\<rparr>]"
  let ?two = "[\<lparr>dayStakeSharesTotal = 4, dayPayoutTotal = 9\<rparr>,
               \<lparr>dayStakeSharesTotal = 0, dayPayoutTotal = 9\<rparr>]"
  from calcPayoutRewards_errors [of 0 1 ?one "BigV 6" 0]
  have "calcPayoutRewards (Days ?one) (BigV 6) 1 (Some 0) = Inr 0"
    by simp
  moreover from calcPayoutRewards_errors [of 2 0 ?two "BigV 6" 1]
  have "\<exists>err. calcPayoutRewards (Days ?two) (BigV 6) 0 (Some 2) = Inl err"
    by simp
  moreover from calcPayoutRewards_errors [of 2 1 ?one "BigV 6" 1]
  have "calcPayoutRewards (Days ?one) (BigV 6) 1 (Some 2) = Inl TypeError"
    by simp
  ultimately show ?thesis
    by (intro conjI)
qed

text \<open>The claim C4 as stated fails: a range with \<open>beginDay = 1 > endDay = 0\<close> yields the
  value \<open>0\<close>, not an error.\<close>

theorem calcPayoutRewards_reversed_range_counterexample:
  "calcPayoutRewards (Days [\<lparr>dayStakeSharesTotal = 4, dayPayoutTotal = 9\<rparr>]) (BigV 6) 1 (Some 0)
     = Inr 0"
  by (simp add: calcPayoutRewards_def payoutLoop_stop)

text \<open>
  Claim C7, at three valid days. With \<open>begin = 0 < mid = 1 < end = 3\<close>, every day within
  the data and no share total zero, the claim equates the payout over \<open>[0, 3)\<close> with the
  sum of those over \<open>[0, 1)\<close> and \<open>[1, 3)\<close> (\<open>4 + 23 = 27\<close> by its formula). In the source
  each of the three calls throws at \<^verbatim>\<open>mul\<close> on its first day, so none has a value.
\<close>

theorem calcPayoutRewards_additive_fails:
  "calcPayoutRewards
     (Days [\<lparr>dayStakeSharesTotal = 10, dayPayoutTotal = 7\<rparr>,
            \<lparr>dayStakeSharesTotal = 3, dayPayoutTotal = 5\<rparr>,
            \<lparr>dayStakeSharesTotal = 4, dayPayoutTotal = 9\<rparr>]) (BigV 6) 0 (Some 1) = Inl TypeError
   \<and> calcPayoutRewards
     (Days [\<lparr>dayStakeSharesTotal = 10, dayPayoutTotal = 7\<rparr>,
            \<lparr>dayStakeSharesTotal = 3, dayPayoutTotal = 5\<rparr>,
            \<lparr>dayStakeSharesTotal = 4, dayPayoutTotal = 9\<rparr>]) (BigV 6) 1 (Some 3) = Inl TypeError
   \<and> calcPayoutRewards
     (Days [\<lparr>dayStakeSharesTotal = 10, dayPayoutTotal = 7\<rparr>,
            \<lparr>dayStakeSharesTotal = 3, dayPayoutTotal = 5\<rparr>,
            \<lparr>dayStakeSharesTotal = 4, dayPayoutTotal = 9\<rparr>]) (BigV 6) 0 (Some 3) = Inl TypeError"
  by (simp add: calcPayoutRewards_nonempty)

section \<open>The late penalty\<close>

lemma calcLatePenalty_cases:
  "calcLatePenalty staked unpooled x =
     (if unpooled \<le> staked + 14 then Inr 0 else Inl TypeError)"
  by (simp add: calcLatePenalty_def LATE_PENALTY_GRACE_DAYS_def bigMul_def)

text \<open>
  Claim C8, past the grace window. With \<open>stakedDays = 1\<close>, \<open>unpooledDays = 365\<close> and a
  raw stake return of \<open>1000\<close> the claim gives \<open>1000 * (365 - 15) / 700 = 500\<close>; the source
  calls \<^verbatim>\<open>rawStakeReturn.mul\<close>, which throws. Within the grace window the source
  returns \<open>0\<close>, as the claim says (lemma \<open>calcLatePenalty_cases\<close>).
\<close>

theorem calcLatePenalty_past_grace:
  "calcLatePenalty 1 365 1000 = Inl TypeError"
  by (simp add: calcLatePenalty_cases)

section \<open>The late-exit branch\<close>

lemma late_exit_ignores_dailyData:
  "\<not> served < stakedDays st \<Longrightarrow>
   stakeReturnAndPenalty dailyData st served =
     (case calcLatePenalty (stakedDays st) (unpooledDay st - pooledDay st) (stakedHearts st) of
        Inl e \<Rightarrow> Inl e
      | Inr penalty \<Rightarrow> Inr (stakedHearts st, penalty))"
  by (simp add: stakeReturnAndPenalty_def calcPayoutRewards_no_endDay Let_def)

text \<open>
  Claim C1, at Scenario A. The claim's payout over \<open>[pooledDay, pooledDay + servedDays)\<close>
  is \<open>100 * 500 / 1000 = 50\<close> and its result \<open>50\<close>; \<^verbatim>\<open>calcStakeReturn\<close> returns \<open>0\<close>. The
  call of line 124 passes no daily data and no end day, so the loop never runs and the
  payout of the late-exit branch is \<open>0\<close> whatever the data
  (lemma \<open>late_exit_ignores_dailyData\<close>).
\<close>

theorem calcStakeReturn_scenario_A:
  "calcStakeReturn [\<lparr>dayStakeSharesTotal = 1000, dayPayoutTotal = 100\<rparr>]
       \<lparr>pooledDay = 0, stakedDays = 1, unpooledDay = 10, stakeShares = 500, stakedHearts = 0\<rparr> 1
     = Inr 0"
  by (simp add: calcStakeReturn_def late_exit_ignores_dailyData calcLatePenalty_cases
      capPenalty_def)

text \<open>
  Claim C5, on a late exit past the grace window. For principal \<open>1000\<close>, one staked day
  and \<open>715\<close> days to the exit, the claim has a penalty that consumes the stake return,
  hence the clamped result \<open>0\<close>; the source throws in \<^verbatim>\<open>calcLatePenalty\<close> and returns
  no amount. The capping of lines 133-144 only ever sees the penalty \<open>0\<close>.
\<close>

theorem calcStakeReturn_late_penalty_throws:
  "calcStakeReturn [\<lparr>dayStakeSharesTotal = 1000, dayPayoutTotal = 100\<rparr>]
       \<lparr>pooledDay = 0, stakedDays = 1, unpooledDay = 715, stakeShares = 500,
        stakedHearts = 1000\<rparr> 1
     = Inl TypeError"
  by (simp add: calcStakeReturn_def late_exit_ignores_dailyData calcLatePenalty_cases)

section \<open>The early penalty window\<close>

text \<open>
  Claim C3, at \<open>stakedDays = 179\<close>. The source computes \<^verbatim>\<open>179 / 2 + 179 % 2\<close>, which is
  \<open>89.5 + 1 = 90.5\<close>, not the integer \<open>max(ceil(179 / 2), 90) = 90\<close>. Lemmas
  \<open>penaltyDaysOf_even\<close> and \<open>penaltyDaysOf_odd\<close> below give the window for every whole
  \<open>stakedDays \<ge> 0\<close>: it is the claimed integer for even values and for odd values below
  \<open>179\<close>, and half a day more for odd values from \<open>179\<close> on.
\<close>

theorem penaltyDaysOf_179:
  "penaltyDaysOf 179 = 181 / 2 \<and> penaltyDaysOf 179 \<noteq> of_int (max \<lceil>179 / 2 :: rat\<rceil> 90)"
  by code_simp

section \<open>The penalty window for whole day counts\<close>

lemma of_int_div_mod_2: "rat_of_int n = 2 * of_int (n div 2) + of_int (n mod 2)"
proof -
  have "n = 2 * (n div 2) + n mod 2" by simp
  then have "rat_of_int n = of_int (2 * (n div 2) + n mod 2)" by (rule arg_cong)
  then show ?thesis by (simp only: of_int_add of_int_mult of_int_numeral)
qed

lemma jsRem_2_of_int:
  assumes "0 \<le> n"
  shows "jsRem (of_int n) 2 = of_int (n mod 2)"
proof -
  have floor: "\<lfloor>rat_of_int n / 2\<rfloor> = n div 2"
    using floor_divide_of_int_eq [of n 2, where ?'a = rat] by simp
  have nonneg: "(0::rat) \<le> of_int n / 2"
    using assms by simp
  have "jsRem (of_int n) 2 = of_int n - 2 * of_int (n div 2)"
    by (simp only: jsRem_def nonneg floor if_True)
  also have "\<dots> = of_int (n mod 2)"
    by (subst of_int_div_mod_2 [of n]) simp
  finally show ?thesis .
qed

lemma penaltyDaysOf_even:
  assumes "0 \<le> n" and "even n"
  shows "penaltyDaysOf (of_int n) = of_int (max (n div 2) 90)"
proof -
  have rem: "jsRem (of_int n) 2 = 0"
    using assms by (simp add: jsRem_2_of_int)
  have half: "rat_of_int n / 2 = of_int (n div 2)"
    using assms(2) by (subst of_int_div_mod_2 [of n]) simp
  have "rat_of_int (n div 2) < of_int 90 \<longleftrightarrow> n div 2 < 90"
    by (simp only: of_int_less_iff)
  then have cmp: "rat_of_int (n div 2) < 90 \<longleftrightarrow> n div 2 < 90"
    by simp
  show ?thesis
    by (simp add: penaltyDaysOf_def EARLY_PENALTY_MIN_DAYS_def Let_def rem half cmp max_def)
qed

lemma penaltyDaysOf_odd:
  assumes "0 \<le> n" and "odd n"
  shows "penaltyDaysOf (of_int n) =
     (if n < 179 then 90 else of_int (n div 2 + 1) + 1 / 2)"
proof -
  have rem: "jsRem (of_int n) 2 = 1"
    using assms by (simp add: jsRem_2_of_int mod_2_eq_odd)
  have "rat_of_int n / 2 = (2 * of_int (n div 2) + 1) / 2"
    using assms(2) by (subst of_int_div_mod_2 [of n]) (simp add: mod_2_eq_odd)
  then have half: "rat_of_int n / 2 = of_int (n div 2) + 1 / 2"
    by (simp add: add_divide_distrib)
  have cmp: "rat_of_int (n div 2) + 1 / 2 + 1 < 90 \<longleftrightarrow> n < 179"
  proof -
    have "rat_of_int (n div 2) + 1 / 2 + 1 < 90
        \<longleftrightarrow> rat_of_int (2 * (n div 2) + 3) < of_int 180"
      by (simp add: field_simps)
    also have "\<dots> \<longleftrightarrow> 2 * (n div 2) + 3 < 180"
      by (simp only: of_int_less_iff)
    also have "\<dots> \<longleftrightarrow> n < 179"
      using assms(2) by presburger
    finally show ?thesis .
  qed
  have "penaltyDaysOf (of_int n) =
      (if rat_of_int (n div 2) + 1 / 2 + 1 < 90 then 90 else of_int (n div 2) + 1 / 2 + 1)"
    by (simp only: penaltyDaysOf_def EARLY_PENALTY_MIN_DAYS_def Let_def rem half)
  also have "\<dots> = (if n < 179 then 90 else of_int (n div 2) + 1 / 2 + 1)"
    by (simp only: cmp)
  finally show ?thesis
    by simp
qed

section \<open>Early exit\<close>

lemma never_served_throws: "calcPayoutAndEarlyPenalty ds pooled staked 0 s = Inl TypeError"
  by (simp add: calcPayoutAndEarlyPenalty_def Let_def estimatePayoutRewardsDay_throws)

text \<open>
  Claim C9, at Scenario B. With \<open>servedDays = 0\<close>, \<open>stakedDays = 1\<close> and the record
  \<open>(1000, 100)\<close> for the day before the pooled day, the claim gives the estimate
  \<open>100 * 500 / (1000 + 500) = 33\<close> and the pair \<open>(0, 33 * 90)\<close>; the source throws at
  \<^verbatim>\<open>mul\<close> inside \<^verbatim>\<open>estimatePayoutRewardsDay\<close>, for every stake that never served
  (lemma \<open>never_served_throws\<close>).
\<close>

theorem calcPayoutAndEarlyPenalty_never_served_throws:
  "estimatePayoutRewardsDay [\<lparr>dayStakeSharesTotal = 1000, dayPayoutTotal = 100\<rparr>] 500 (1 - 1)
     = Inl TypeError
   \<and> calcPayoutAndEarlyPenalty [\<lparr>dayStakeSharesTotal = 1000, dayPayoutTotal = 100\<rparr>] 1 1 0 500
     = Inl TypeError"
  by (simp add: estimatePayoutRewardsDay_throws never_served_throws)

text \<open>
  Claim C2, at Scenario B. On the early exit of a stake that never served
  (\<open>servedDays = 0 < stakedDays = 1\<close>) with principal \<open>5000\<close>, the claim gives
  \<open>stakedHearts + 0 = 5000\<close>; the source throws in \<^verbatim>\<open>calcPayoutAndEarlyPenalty\<close> and
  returns nothing.
\<close>

theorem calcStakeReturn_early_exit_throws:
  "calcStakeReturn [\<lparr>dayStakeSharesTotal = 1000, dayPayoutTotal = 100\<rparr>]
       \<lparr>pooledDay = 1, stakedDays = 1, unpooledDay = 1, stakeShares = 500,
        stakedHearts = 5000\<rparr> 0
     = Inl TypeError"
  by (simp add: calcStakeReturn_def stakeReturnAndPenalty_def never_served_throws)

section \<open>What the source returns at all\<close>

lemma penaltyDaysOf_ge: "90 \<le> penaltyDaysOf staked"
  by (simp add: penaltyDaysOf_def EARLY_PENALTY_MIN_DAYS_def Let_def)

text \<open>In the model every early exit throws, whatever the number of days served: either
  the estimate is asked for, or a range that is not empty is accumulated, or
  \<^verbatim>\<open>payout.mul\<close> is called.\<close>

lemma early_exit_throws: "calcPayoutAndEarlyPenalty ds pooled staked served s = Inl TypeError"
proof -
  let ?pd = "penaltyDaysOf staked"
  note window = penaltyDaysOf_ge [of staked]
  consider (never) "served = 0"
    | (beyond) "served \<noteq> 0" "?pd < served"
    | (short) "served \<noteq> 0" "\<not> ?pd < served" "0 < served"
    | (negative) "served \<noteq> 0" "\<not> ?pd < served" "served < 0"
    by fastforce
  then show ?thesis
  proof cases
    case never
    then show ?thesis by (simp add: never_served_throws)
  next
    case beyond
    from window have "pooled < pooled + ?pd" by simp
    from calcPayoutRewards_nonempty [OF this] beyond show ?thesis
      by (simp add: calcPayoutAndEarlyPenalty_def Let_def)
  next
    case short
    from short(3) have "pooled < pooled + served" by simp
    from calcPayoutRewards_nonempty [OF this] short show ?thesis
      by (simp add: calcPayoutAndEarlyPenalty_def Let_def)
  next
    case negative
    from negative(3) have "pooled + served \<le> pooled" by simp
    moreover from negative(3) window have "?pd \<noteq> served" by simp
    ultimately show ?thesis
      using negative
      by (simp add: calcPayoutAndEarlyPenalty_def Let_def calcPayoutRewards_empty bigMul_def)
  qed
qed

text \<open>So the only amount \<^verbatim>\<open>calcStakeReturn\<close> returns in the model is the untouched
  principal of a late exit within the grace window.\<close>

lemma calcStakeReturn_cases:
  "calcStakeReturn dailyData st served =
     (if \<not> served < stakedDays st \<and> unpooledDay st - pooledDay st \<le> stakedDays st + 14
      then Inr (stakedHearts st) else Inl TypeError)"
  by (simp add: calcStakeReturn_def stakeReturnAndPenalty_def early_exit_throws
      calcPayoutRewards_no_endDay calcLatePenalty_cases capPenalty_def Let_def)

section \<open>Properties of the interface filtering\<close>










end
